theory Spec2Isabelle
  imports Complex_Main
begin

section \<open>JavaScript values as the front end uses them\<close>

text \<open>
  The front end is untyped JavaScript.  Where the code applies \<^verbatim>\<open>||\<close> or
  \<^verbatim>\<open>?.\<close> to a value whose type the caller or the server chooses, the value is
  modelled as a \<open>js_value\<close>.  A property that is absent from an object reads as
  \<open>JUndefined\<close>.  Numbers are rationals with \<open>JNaN\<close> apart; \<open>JObject\<close> stands for
  every object, array and function (all of them truthy).
\<close>

datatype js_value =
    JUndefined
  | JNull
  | JBool bool
  | JNumber rat
  | JNaN
  | JString string
  | JObject

fun js_truthy :: "js_value \<Rightarrow> bool" where
  "js_truthy JUndefined = False"
| "js_truthy JNull = False"
| "js_truthy (JBool b) = b"
| "js_truthy (JNumber q) = (q \<noteq> 0)"
| "js_truthy JNaN = False"
| "js_truthy (JString s) = (s \<noteq> [])"
| "js_truthy JObject = True"

text \<open>\<^verbatim>\<open>a || b\<close>: the left operand when it is truthy, the right one otherwise.\<close>

definition js_or :: "js_value \<Rightarrow> js_value \<Rightarrow> js_value" where
  "js_or a b = (if js_truthy a then a else b)"

fun is_boolean :: "js_value \<Rightarrow> bool" where
  "is_boolean (JBool b) = True"
| "is_boolean v = False"


section \<open>services/api.js: the request of implementRecommendation\<close>

text \<open>
  \<^verbatim>\<open>async implementRecommendation(checkId, options = {}) {
    const response = await api.post(`/implement/${checkId}`, {
      dry_run: options.dryRun || false,
      force: options.force || false,
    })
    return response.data
  }\<close>
  The caller's \<open>options\<close> object has the two properties the function reads; an omitted
  property is \<open>JUndefined\<close>, and an omitted \<open>options\<close> argument (\<open>None\<close>) takes the
  default \<^verbatim>\<open>{}\<close>.  The body's property \<^verbatim>\<open>force\<close> is the field \<open>force_field\<close>.
\<close>

record implement_options =
  dryRun :: js_value
  force :: js_value

record implement_body =
  dry_run :: js_value
  force_field :: js_value

record post_request =
  url :: string
  body :: implement_body

definition default_options :: implement_options where
  "default_options = \<lparr>dryRun = JUndefined, force = JUndefined\<rparr>"

definition implementRecommendation_request ::
  "string \<Rightarrow> implement_options option \<Rightarrow> post_request" where
  "implementRecommendation_request checkId options =
     (let opts = (case options of None \<Rightarrow> default_options | Some o' \<Rightarrow> o')
      in \<lparr>url = ''/implement/'' @ checkId,
          body = \<lparr>dry_run = js_or (dryRun opts) (JBool False),
                  force_field = js_or (force opts) (JBool False)\<rparr>\<rparr>)"

text \<open>An option the caller may leave out or give as a boolean.\<close>

definition boolean_or_omitted :: "js_value \<Rightarrow> bool" where
  "boolean_or_omitted v = (v = JUndefined \<or> is_boolean v)"


section \<open>components/RecommendationCard.vue\<close>

text \<open>
  The object the server answers with (\<^verbatim>\<open>response.data\<close>), with the properties the
  components read, and the error axios rejects with.  The card reads the error through
  \<^verbatim>\<open>error.response?.data?.detail\<close>: a missing \<open>response\<close> or \<open>data\<close> gives
  \<open>JUndefined\<close>.
\<close>

record api_result =
  success :: bool
  message :: js_value
  savings :: "rat option"
  affected_resources :: "string list option"

record error_data =
  detail :: js_value

record error_response =
  data :: "error_data option"

record request_error =
  response :: "error_response option"

definition error_detail :: "request_error \<Rightarrow> js_value" where
  "error_detail e =
     (case response e of
        None \<Rightarrow> JUndefined
      | Some r \<Rightarrow> (case data r of None \<Rightarrow> JUndefined | Some d \<Rightarrow> detail d))"

text \<open>The payload of the \<^verbatim>\<open>implementation-completed\<close> event.\<close>

record completed_event =
  ev_checkId :: string
  ev_success :: bool
  ev_savings :: "rat option"

record card_state =
  implementing :: bool
  implementationResult :: "api_result option"

text \<open>
  The server is a parameter: what the awaited POST resolves to (\<open>Inr\<close>) or rejects with
  (\<open>Inl\<close>).  The function returns the card's state after the \<^verbatim>\<open>finally\<close> block and
  the event it emitted, if any.
  \<^verbatim>\<open>const implementRecommendation = async (dryRun) => {
    implementing.value = true
    implementationResult.value = null
    try {
      const result = await apiService.implementRecommendation(props.recommendation.check_id,
        { dryRun: dryRun })
      implementationResult.value = result
      emit('implementation-completed',
        { checkId: props.recommendation.check_id, success: result.success, savings: result.savings })
    } catch (error) {
      implementationResult.value =
        { success: false, message: error.response?.data?.detail || 'Implementation failed' }
    } finally {
      implementing.value = false
    }
  }\<close>
\<close>

type_synonym server = "post_request \<Rightarrow> request_error + api_result"

text \<open>
  The card while its request is awaited, and the \<^verbatim>\<open>:disabled="implementing"\<close> of its
  two buttons.
\<close>

definition awaiting :: "card_state \<Rightarrow> card_state" where
  "awaiting st = st\<lparr>implementing := True, implementationResult := None\<rparr>"

definition buttons_disabled :: "card_state \<Rightarrow> bool" where
  "buttons_disabled st = implementing st"

definition card_request :: "string \<Rightarrow> bool \<Rightarrow> post_request" where
  "card_request check_id_prop dryRun_arg =
     implementRecommendation_request check_id_prop
       (Some \<lparr>dryRun = JBool dryRun_arg, force = JUndefined\<rparr>)"

definition implementRecommendation ::
  "server \<Rightarrow> string \<Rightarrow> card_state \<Rightarrow> bool \<Rightarrow> card_state \<times> completed_event option" where
  "implementRecommendation srv check_id_prop st dryRun_arg =
     (let st1 = awaiting st
      in case srv (card_request check_id_prop dryRun_arg) of
           Inr result \<Rightarrow>
             (st1\<lparr>implementationResult := Some result, implementing := False\<rparr>,
              Some \<lparr>ev_checkId = check_id_prop, ev_success = success result,
                    ev_savings = savings result\<rparr>)
         | Inl error \<Rightarrow>
             (st1\<lparr>implementationResult :=
                     Some \<lparr>success = False,
                           message = js_or (error_detail error) (JString ''Implementation failed''),
                           savings = None, affected_resources = None\<rparr>,
                   implementing := False\<rparr>,
              None))"

definition handleImplement ::
  "server \<Rightarrow> string \<Rightarrow> card_state \<Rightarrow> card_state \<times> completed_event option" where
  "handleImplement srv check_id_prop st = implementRecommendation srv check_id_prop st False"

definition handleDryRun ::
  "server \<Rightarrow> string \<Rightarrow> card_state \<Rightarrow> card_state \<times> completed_event option" where
  "handleDryRun srv check_id_prop st = implementRecommendation srv check_id_prop st True"


section \<open>components/RecommendationList.vue\<close>

text \<open>
  A recommendation as the list component reads it.  The server's other properties
  (title, description, affected resources, last update) are not read here; the object
  spread of \<open>handleImplementationCompleted\<close> carries them over unchanged, as the record
  update does with every field but \<open>status\<close>.  A missing or \<^verbatim>\<open>null\<close>
  \<open>estimated_savings\<close> is \<open>None\<close>.
\<close>

record recommendation =
  check_id :: string
  status :: string
  category :: string
  estimated_savings :: "rat option"
  can_implement :: bool

record summary_entry =
  checkId :: string
  summary_message :: string
  summary_savings :: rat

record list_state =
  recommendations :: "recommendation list"
  statusFilter :: string
  categoryFilter :: string
  implementationFilter :: string
  implementationSummary :: "summary_entry list"

text \<open>\<^verbatim>\<open>x || 0\<close> on a number that may be missing: a missing, null or zero value gives 0.\<close>

definition or_zero :: "rat option \<Rightarrow> rat" where
  "or_zero v = (case v of None \<Rightarrow> 0 | Some q \<Rightarrow> (if q \<noteq> 0 then q else 0))"

text \<open>
  The callback of \<^verbatim>\<open>recommendations.value.filter\<close>; an empty filter string is falsy.
\<close>

definition passes_filters :: "list_state \<Rightarrow> recommendation \<Rightarrow> bool" where
  "passes_filters st rec =
     (if statusFilter st \<noteq> [] \<and> status rec \<noteq> statusFilter st then False
      else if categoryFilter st \<noteq> [] \<and> category rec \<noteq> categoryFilter st then False
      else if implementationFilter st = ''auto'' \<and> \<not> can_implement rec then False
      else if implementationFilter st = ''manual'' \<and> can_implement rec then False
      else True)"

definition filteredRecommendations :: "list_state \<Rightarrow> recommendation list" where
  "filteredRecommendations st = filter (passes_filters st) (recommendations st)"

text \<open>
  \<^verbatim>\<open>recommendations.value.reduce((total, rec) => total + (rec.estimated_savings || 0), 0)\<close>
  The \<^verbatim>\<open>+\<close> of the code adds IEEE 754 doubles: it rounds, it may overflow, and it
  is not associative.  The value a recommendation carries is a finite double, which is a
  rational; the addition is the parameter \<open>add\<close>, from the running total (of any type
  \<open>'n\<close> of numbers with a zero) and the next value to the new total, and the fold runs
  from the left over the list as it is stored, as \<^verbatim>\<open>reduce\<close> does.
\<close>

definition totalSavings :: "('n::zero \<Rightarrow> rat \<Rightarrow> 'n) \<Rightarrow> list_state \<Rightarrow> 'n" where
  "totalSavings add st =
     foldl (\<lambda>total rec. add total (or_zero (estimated_savings rec))) 0 (recommendations st)"

definition warningCount :: "list_state \<Rightarrow> nat" where
  "warningCount st = length (filter (\<lambda>rec. status rec = ''warning'') (recommendations st))"

definition errorCount :: "list_state \<Rightarrow> nat" where
  "errorCount st = length (filter (\<lambda>rec. status rec = ''error'') (recommendations st))"

definition autoImplementableCount :: "list_state \<Rightarrow> nat" where
  "autoImplementableCount st = length (filter can_implement (recommendations st))"

text \<open>\<^verbatim>\<open>Array.prototype.findIndex\<close>: the first index that satisfies, \<open>None\<close> for -1.\<close>

fun findIndex :: "('a \<Rightarrow> bool) \<Rightarrow> 'a list \<Rightarrow> nat option" where
  "findIndex p [] = None"
| "findIndex p (x # xs) = (if p x then Some 0 else map_option Suc (findIndex p xs))"

text \<open>
  \<^verbatim>\<open>const handleImplementationCompleted = (result) => {
    implementationSummary.value.unshift({
      checkId: result.checkId,
      message: `Implementation ${result.success ? 'succeeded' : 'failed'}`,
      savings: result.savings || 0 })
    if (implementationSummary.value.length > 5) {
      implementationSummary.value = implementationSummary.value.slice(0, 5) }
    const index = recommendations.value.findIndex(r => r.check_id === result.checkId)
    if (index !== -1) {
      recommendations.value[index] =
        { ...recommendations.value[index], status: result.success ? 'ok' : 'error' } }
  }\<close>
\<close>

definition summary_of :: "completed_event \<Rightarrow> summary_entry" where
  "summary_of result =
     \<lparr>checkId = ev_checkId result,
      summary_message = ''Implementation '' @ (if ev_success result then ''succeeded'' else ''failed''),
      summary_savings = or_zero (ev_savings result)\<rparr>"

definition handleImplementationCompleted :: "list_state \<Rightarrow> completed_event \<Rightarrow> list_state" where
  "handleImplementationCompleted st result =
     (let unshifted = summary_of result # implementationSummary st;
          kept = (if length unshifted > 5 then take 5 unshifted else unshifted);
          st1 = st\<lparr>implementationSummary := kept\<rparr>;
          recs = recommendations st1
      in case findIndex (\<lambda>r. check_id r = ev_checkId result) recs of
           None \<Rightarrow> st1
         | Some index \<Rightarrow>
             st1\<lparr>recommendations :=
                   recs[index := (recs ! index)\<lparr>status := (if ev_success result then ''ok'' else ''error'')\<rparr>]\<rparr>)"

text \<open>
  The list after a run of completion events, oldest first, and the whole path of one
  click on a card of the list: the card's handler, then the list's handler on the event
  the card emitted (none when the request was rejected).
\<close>

fun handle_all :: "list_state \<Rightarrow> completed_event list \<Rightarrow> list_state" where
  "handle_all st [] = st"
| "handle_all st (ev # evs) = handle_all (handleImplementationCompleted st ev) evs"

definition click :: "server \<Rightarrow> bool \<Rightarrow> recommendation \<Rightarrow> list_state \<Rightarrow> card_state \<Rightarrow> list_state \<times> card_state" where
  "click srv dryRun_arg rec st cst =
     (case implementRecommendation srv (check_id rec) cst dryRun_arg of
        (cst', None) \<Rightarrow> (st, cst')
      | (cst', Some ev) \<Rightarrow> (handleImplementationCompleted st ev, cst'))"


section \<open>App.vue: the health check\<close>

text \<open>
  The object \<^verbatim>\<open>GET /health\<close> answers with, as \<open>checkHealth\<close> reads it (its property
  \<^verbatim>\<open>status\<close> is the field \<open>health_status\<close>).  Formatting a date for the locale is a
  parameter, and so is the clock (\<^verbatim>\<open>new Date()\<close>).
  \<^verbatim>\<open>const checkHealth = async () => {
    healthLoading.value = true
    try {
      const health = await apiService.healthCheck()
      healthStatus.value = health.status
      awsConnection.value = health.aws_connection
      lastHealthCheck.value = new Date(health.timestamp).toLocaleString()
    } catch (error) {
      healthStatus.value = 'unhealthy'
      awsConnection.value = false
      lastHealthCheck.value = new Date().toLocaleString()
    } finally {
      healthLoading.value = false
    }
  }\<close>
\<close>

type_synonym timestamp = string

record health_response =
  health_status :: string
  aws_connection :: bool
  timestamp :: timestamp

record app_state =
  healthStatus :: string
  awsConnection :: bool
  healthLoading :: bool
  lastHealthCheck :: string
  showHealthModal :: bool

definition initial_app :: app_state where
  "initial_app =
     \<lparr>healthStatus = ''unknown'', awsConnection = False, healthLoading = False,
      lastHealthCheck = ''Never'', showHealthModal = False\<rparr>"

definition checkHealth ::
  "(timestamp \<Rightarrow> string) \<Rightarrow> timestamp \<Rightarrow> app_state \<Rightarrow> request_error + health_response \<Rightarrow> app_state" where
  "checkHealth toLocaleString now st answer =
     (let st1 = st\<lparr>healthLoading := True\<rparr>
      in case answer of
           Inr health \<Rightarrow>
             st1\<lparr>healthStatus := health_status health,
                 awsConnection := aws_connection health,
                 lastHealthCheck := toLocaleString (timestamp health),
                 healthLoading := False\<rparr>
         | Inl error \<Rightarrow>
             st1\<lparr>healthStatus := ''unhealthy'',
                 awsConnection := False,
                 lastHealthCheck := toLocaleString now,
                 healthLoading := False\<rparr>)"

definition healthStatusClass :: "app_state \<Rightarrow> string" where
  "healthStatusClass st =
     (if healthStatus st = ''healthy'' then ''bg-green-500''
      else if healthStatus st = ''unhealthy'' then ''bg-red-500''
      else ''bg-yellow-500'')"

definition healthStatusText :: "app_state \<Rightarrow> string" where
  "healthStatusText st =
     (if healthStatus st = ''healthy'' then ''Healthy''
      else if healthStatus st = ''unhealthy'' then ''Unhealthy''
      else ''Unknown'')"

definition awsConnectionClass :: "app_state \<Rightarrow> string" where
  "awsConnectionClass st = (if awsConnection st then ''text-green-600'' else ''text-red-600'')"

definition awsConnectionText :: "app_state \<Rightarrow> string" where
  "awsConnectionText st = (if awsConnection st then ''Connected'' else ''Disconnected'')"


section \<open>The Execution Coordinator of the specification\<close>

text \<open>
  The repository's sources hold the front end only; the engine that serves
  \<^verbatim>\<open>POST /implement/{id}\<close> is not among them.  The definitions of this section are
  written from the specification (its sections 3, 4.4 and 4.5), step for step.
\<close>

type_synonym rec_id = string
type_synonym resource_id = string
type_synonym kind = string

text \<open>
  Modelled from the spec: the entity Recommendation of the engine (section 3) with its
  two enumerations, which is not in the sources.  \<open>rec_status\<close> is its field
  \<^verbatim>\<open>status\<close>, \<open>rec_kind\<close> the kind the Automation Registry is keyed by;
  \<^verbatim>\<open>canAutoImplement\<close> is derived from the registry (below), never stored.
\<close>

datatype rec_category = CostOptimization | Security | FaultTolerance | Performance

datatype rec_health = Ok | Warning | Error | NotAvailable

record engine_recommendation =
  rec_ident :: rec_id
  rec_kind :: kind
  rec_category :: rec_category
  rec_status :: rec_health
  estimatedSavingsPerMonth :: rat
  affectedResources :: "resource_id list"

text \<open>
  Modelled from the spec: the entity Automation and its registry (sections 3 and 4.2),
  which are not in the sources.  \<^verbatim>\<open>Automation.execute(resources, dryRun)\<close> reports an
  outcome per resource in order, or an unrecoverable error before any resource was
  processed; an automation is a pure function of the resources and the mode, and the
  registry maps a kind to at most one automation.
\<close>

record resource_outcome =
  succeeded :: bool
  errorDetail :: string

datatype automation_outcome =
    Unrecoverable string
  | Outcomes "(resource_id \<times> resource_outcome) list"

type_synonym automation = "resource_id list \<Rightarrow> bool \<Rightarrow> automation_outcome"

type_synonym registry = "kind \<rightharpoonup> automation"

definition canAutoImplement :: "registry \<Rightarrow> engine_recommendation \<Rightarrow> bool" where
  "canAutoImplement reg r = (reg (rec_kind r) \<noteq> None)"

text \<open>
  Modelled from the spec: the entities ImplementationResult and ImplementationStatus
  (section 3) and the two errors a request can fail with (section 7), which are not in
  the sources.  The human-readable summary of a result is kept as what it reports.
\<close>

datatype impl_state = Idle | InProgress | Succeeded | Failed | PartiallyFailed

datatype coordinator_error = AlreadyInProgressError | NotAutomatableError

datatype result_message =
    AllSucceeded
  | NoResources
  | SomeFailed nat nat
  | AllFailed
  | Aborted string

record implementation_result =
  recommendationId :: rec_id
  res_success :: bool
  res_dryRun :: bool
  res_message :: result_message
  savingsRealized :: rat
  res_affectedResources :: "resource_id list"
  perResourceOutcomes :: "(resource_id \<times> resource_outcome) list"

record implementation_status =
  state :: impl_state
  lastResult :: "implementation_result option"

text \<open>
  Modelled from the spec: the stored state the Execution Coordinator works on, which is
  not in the sources: the recommendations by id, the Status Tracker's table (an entry
  is created on the first execution request) and the history of results by id.
\<close>

record coordinator =
  recommendationStore :: "rec_id \<Rightarrow> engine_recommendation"
  statusTable :: "rec_id \<rightharpoonup> implementation_status"
  resultHistory :: "rec_id \<Rightarrow> implementation_result list"

text \<open>
  Modelled from the spec: the Status Tracker (section 4.5), which is not in the sources.
  \<open>get_status\<close> answers Idle with no history for an id never executed.
\<close>

definition get_status :: "coordinator \<Rightarrow> rec_id \<Rightarrow> implementation_status" where
  "get_status c rid =
     (case statusTable c rid of None \<Rightarrow> \<lparr>state = Idle, lastResult = None\<rparr> | Some s \<Rightarrow> s)"

definition record_status :: "coordinator \<Rightarrow> rec_id \<Rightarrow> implementation_status \<Rightarrow> coordinator" where
  "record_status c rid s = c\<lparr>statusTable := (statusTable c)(rid \<mapsto> s)\<rparr>"

text \<open>
  Modelled from the spec: step 4 of section 4.4 (Aggregate), which is not in the sources.
  Succeeded when every outcome succeeded and at least one resource was processed; zero
  resources is Failed; PartiallyFailed when some succeeded and some failed; Failed when
  all failed or the run was aborted before any resource.
\<close>

definition outcomes_of :: "automation_outcome \<Rightarrow> (resource_id \<times> resource_outcome) list" where
  "outcomes_of out = (case out of Unrecoverable m \<Rightarrow> [] | Outcomes os \<Rightarrow> os)"

definition n_succeeded :: "(resource_id \<times> resource_outcome) list \<Rightarrow> nat" where
  "n_succeeded os = length (filter (\<lambda>o'. succeeded (snd o')) os)"

definition classify :: "automation_outcome \<Rightarrow> impl_state" where
  "classify out =
     (case out of
        Unrecoverable m \<Rightarrow> Failed
      | Outcomes os \<Rightarrow>
          (if os = [] then Failed
           else if n_succeeded os = length os then Succeeded
           else if 0 < n_succeeded os then PartiallyFailed
           else Failed))"

definition describe :: "automation_outcome \<Rightarrow> result_message" where
  "describe out =
     (case out of
        Unrecoverable m \<Rightarrow> Aborted m
      | Outcomes os \<Rightarrow>
          (if os = [] then NoResources
           else if n_succeeded os = length os then AllSucceeded
           else if 0 < n_succeeded os then SomeFailed (n_succeeded os) (length os)
           else AllFailed))"

text \<open>
  Modelled from the spec: step 5 of section 4.4 (Savings), which is not in the sources.
  Nothing on a dry run or a failure, the estimate on a real success, and on a partial
  failure the estimate times the fraction of the resources that succeeded.
\<close>

definition savings_of :: "bool \<Rightarrow> rat \<Rightarrow> automation_outcome \<Rightarrow> rat" where
  "savings_of dryRun_arg estimate out =
     (if dryRun_arg then 0
      else (case classify out of
              Succeeded \<Rightarrow> estimate
            | PartiallyFailed \<Rightarrow>
                estimate * (of_nat (n_succeeded (outcomes_of out)) / of_nat (length (outcomes_of out)))
            | _ \<Rightarrow> 0))"

definition advance_status :: "bool \<Rightarrow> automation_outcome \<Rightarrow> engine_recommendation \<Rightarrow> engine_recommendation" where
  "advance_status dryRun_arg out r =
     (if \<not> dryRun_arg \<and> classify out = Succeeded then r\<lparr>rec_status := Ok\<rparr> else r)"

text \<open>
  Modelled from the spec: steps 1 and 2 of section 4.4, which are not in the sources.
  The guard refuses a request for an id that is InProgress and otherwise marks the id
  InProgress; with no automation registered for the kind, the request fails and the
  status entry goes back to what it was.
\<close>

definition single_flight_guard :: "coordinator \<Rightarrow> rec_id \<Rightarrow> coordinator_error + coordinator" where
  "single_flight_guard c rid =
     (if state (get_status c rid) = InProgress then Inl AlreadyInProgressError
      else Inr (record_status c rid ((get_status c rid)\<lparr>state := InProgress\<rparr>)))"

definition begin_attempt ::
  "registry \<Rightarrow> coordinator \<Rightarrow> rec_id \<Rightarrow> (coordinator_error + automation) \<times> coordinator" where
  "begin_attempt reg c rid =
     (case single_flight_guard c rid of
        Inl e \<Rightarrow> (Inl e, c)
      | Inr c1 \<Rightarrow>
          (case reg (rec_kind (recommendationStore c1 rid)) of
             None \<Rightarrow> (Inl NotAutomatableError, c1\<lparr>statusTable := (statusTable c1)(rid := statusTable c rid)\<rparr>)
           | Some a \<Rightarrow> (Inr a, c1)))"

text \<open>
  Modelled from the spec: steps 4 to 6 of section 4.4 on the outcome the automation
  reported, which are not in the sources.
\<close>

definition finish_attempt ::
  "coordinator \<Rightarrow> rec_id \<Rightarrow> bool \<Rightarrow> automation_outcome \<Rightarrow> implementation_result \<times> coordinator" where
  "finish_attempt c rid dryRun_arg out =
     (let r = recommendationStore c rid;
          res = \<lparr>recommendationId = rid,
                 res_success = (classify out = Succeeded),
                 res_dryRun = dryRun_arg,
                 res_message = describe out,
                 savingsRealized = savings_of dryRun_arg (estimatedSavingsPerMonth r) out,
                 res_affectedResources = map fst (outcomes_of out),
                 perResourceOutcomes = outcomes_of out\<rparr>
      in (res,
          c\<lparr>recommendationStore := (recommendationStore c)(rid := advance_status dryRun_arg out r),
            statusTable := (statusTable c)(rid \<mapsto> \<lparr>state = classify out, lastResult = Some res\<rparr>),
            resultHistory := (resultHistory c)(rid := resultHistory c rid @ [res])\<rparr>))"

text \<open>
  Modelled from the spec: one whole remediation request (steps 1 to 6), run without
  interruption.
\<close>

definition implement ::
  "registry \<Rightarrow> coordinator \<Rightarrow> rec_id \<Rightarrow> bool \<Rightarrow> (coordinator_error + implementation_result) \<times> coordinator" where
  "implement reg c rid dryRun_arg =
     (case begin_attempt reg c rid of
        (Inl e, c') \<Rightarrow> (Inl e, c')
      | (Inr a, c1) \<Rightarrow>
          (case finish_attempt c1 rid dryRun_arg
                  (a (affectedResources (recommendationStore c1 rid)) dryRun_arg) of
             (res, c2) \<Rightarrow> (Inr res, c2)))"

text \<open>
  Modelled from the spec: the engine serving interleaved requests (section 5).  A request
  arrives (steps 1 to 3: the automation is invoked and its outcome is pending), and later
  the pending attempt of an id finishes (steps 4 to 6).  Each event gives the responses
  it sends: a rejection at once, or the result when the attempt finishes.
\<close>

datatype engine_event = Arrive rec_id bool | Finish rec_id

datatype response = Rejected coordinator_error | Completed implementation_result

record engine =
  coord :: coordinator
  inFlight :: "(rec_id \<times> bool \<times> automation_outcome) list"

fun take_attempt ::
  "rec_id \<Rightarrow> (rec_id \<times> 'a) list \<Rightarrow> ('a \<times> (rec_id \<times> 'a) list) option" where
  "take_attempt rid [] = None"
| "take_attempt rid ((i, x) # xs) =
     (if i = rid then Some (x, xs)
      else (case take_attempt rid xs of
              None \<Rightarrow> None
            | Some (y, ys) \<Rightarrow> Some (y, (i, x) # ys)))"

definition engine_step :: "registry \<Rightarrow> engine \<Rightarrow> engine_event \<Rightarrow> response list \<times> engine" where
  "engine_step reg e ev =
     (case ev of
        Arrive rid dryRun_arg \<Rightarrow>
          (case begin_attempt reg (coord e) rid of
             (Inl err, c') \<Rightarrow> ([Rejected err], e\<lparr>coord := c'\<rparr>)
           | (Inr a, c1) \<Rightarrow>
               ([], e\<lparr>coord := c1,
                      inFlight := inFlight e @
                        [(rid, dryRun_arg, a (affectedResources (recommendationStore c1 rid)) dryRun_arg)]\<rparr>))
      | Finish rid \<Rightarrow>
          (case take_attempt rid (inFlight e) of
             None \<Rightarrow> ([], e)
           | Some ((dryRun_arg, out), rest) \<Rightarrow>
               (case finish_attempt (coord e) rid dryRun_arg out of
                  (res, c2) \<Rightarrow> ([Completed res], e\<lparr>coord := c2, inFlight := rest\<rparr>))))"

fun engine_run :: "registry \<Rightarrow> engine \<Rightarrow> engine_event list \<Rightarrow> response list \<times> engine" where
  "engine_run reg e [] = ([], e)"
| "engine_run reg e (ev # evs) =
     (case engine_step reg e ev of
        (out1, e1) \<Rightarrow> (case engine_run reg e1 evs of (out2, e2) \<Rightarrow> (out1 @ out2, e2)))"

text \<open>
  Modelled from the spec: the engine before any request (no status entry, no history,
  nothing in flight), the number of attempts of an id that are in flight, and the
  terminal states of the state machine (section 4.4).
\<close>

definition initial_engine :: "(rec_id \<Rightarrow> engine_recommendation) \<Rightarrow> engine" where
  "initial_engine store =
     \<lparr>coord = \<lparr>recommendationStore = store, statusTable = Map.empty, resultHistory = (\<lambda>rid. [])\<rparr>,
      inFlight = []\<rparr>"

definition running :: "engine \<Rightarrow> rec_id \<Rightarrow> nat" where
  "running e rid = length (filter (\<lambda>x. fst x = rid) (inFlight e))"

definition terminal :: "impl_state \<Rightarrow> bool" where
  "terminal s = (s = Succeeded \<or> s = Failed \<or> s = PartiallyFailed)"

text \<open>
  What holds of the engine after every run of events: an id has one attempt in flight
  when its status is InProgress and none otherwise, the kind of a stored recommendation
  never changes, and an id whose kind has no automation has no status entry.
\<close>

definition engine_inv :: "registry \<Rightarrow> (rec_id \<Rightarrow> engine_recommendation) \<Rightarrow> engine \<Rightarrow> bool" where
  "engine_inv reg store e =
     (\<forall>rid. running e rid = (if state (get_status (coord e) rid) = InProgress then 1 else 0)
          \<and> rec_kind (recommendationStore (coord e) rid) = rec_kind (store rid)
          \<and> (reg (rec_kind (store rid)) = None \<longrightarrow> statusTable (coord e) rid = None))"


section \<open>Worked examples\<close>

text \<open>
  An automation that fails on the listed resources and succeeds on every other one, a
  registry with that automation for one kind, and a store whose recommendation \<open>r1\<close>
  is of that kind, with an estimate of 100 a month and four affected resources; every
  other id is of a kind with no automation.
\<close>

definition example_automation :: "resource_id list \<Rightarrow> automation" where
  "example_automation failing resources dryRun_arg =
     Outcomes (map (\<lambda>r. (r, \<lparr>succeeded = (r \<notin> set failing),
                             errorDetail = (if r \<in> set failing then ''timed out'' else [])\<rparr>))
                 resources)"

definition example_registry :: registry where
  "example_registry = [''idle_instances'' \<mapsto> example_automation [''res-d'']]"

definition example_store :: "rec_id \<Rightarrow> engine_recommendation" where
  "example_store rid =
     \<lparr>rec_ident = rid,
      rec_kind = (if rid = ''r1'' then ''idle_instances'' else ''unversioned_bucket''),
      rec_category = CostOptimization,
      rec_status = Warning,
      estimatedSavingsPerMonth = 100,
      affectedResources = [''res-a'', ''res-b'', ''res-c'', ''res-d'']\<rparr>"

text \<open>
  A server that answers a dry-run request with a success that saves nothing and rejects
  every other request, and a list with one recommendation, in state warning.
\<close>

definition example_server :: server where
  "example_server req =
     (if dry_run (body req) = JBool True
      then Inr \<lparr>success = True, message = JString ''Dry run: would stop 3 instances'',
                savings = Some 0, affected_resources = Some [''i-1234567890abcdef0'']\<rparr>
      else Inl \<lparr>response = None\<rparr>)"

definition example_recommendation :: recommendation where
  "example_recommendation =
     \<lparr>check_id = ''c1'', status = ''warning'', category = ''cost_optimization'',
      estimated_savings = Some 150, can_implement = True\<rparr>"

definition example_list :: list_state where
  "example_list =
     \<lparr>recommendations = [example_recommendation], statusFilter = [], categoryFilter = [],
      implementationFilter = [], implementationSummary = []\<rparr>"


section \<open>Properties of the request body\<close>

lemma js_or_false_boolean:
  "boolean_or_omitted v \<Longrightarrow> is_boolean (js_or v (JBool False))"
  by (cases v) (simp_all add: boolean_or_omitted_def js_or_def)

lemma js_or_undefined: "js_or JUndefined b = b"
  by (simp add: js_or_def)

lemma is_boolean_js_or_false:
  "is_boolean (js_or v (JBool False)) = (is_boolean v \<or> \<not> js_truthy v)"
  by (cases v) (simp_all add: js_or_def)

text \<open>
  Claim C6, as amended.  Every request of \<open>implementRecommendation\<close> is a POST to
  \<^verbatim>\<open>/implement/{id}\<close> that hands \<^verbatim>\<open>api.post\<close> a body object with the fields
  \<open>dry_run\<close> and \<open>force\<close>, each equal to the caller's option when that option is truthy
  and \<open>false\<close> otherwise; a field is \<open>false\<close> whenever the caller omits the option (or
  the whole options argument); a field is a boolean exactly when its option is a boolean
  or falsy, so whenever the option is omitted or given as a boolean; and the request of a
  RecommendationCard carries the card's mode as \<open>dry_run\<close> and \<open>force = false\<close>.
\<close>

theorem implementRecommendation_body:
  "url (implementRecommendation_request cid options) = ''/implement/'' @ cid
   \<and> body (implementRecommendation_request cid None) =
       \<lparr>dry_run = JBool False, force_field = JBool False\<rparr>
   \<and> dry_run (body (implementRecommendation_request cid (Some opts))) =
       (if js_truthy (dryRun opts) then dryRun opts else JBool False)
   \<and> force_field (body (implementRecommendation_request cid (Some opts))) =
       (if js_truthy (force opts) then force opts else JBool False)
   \<and> (dryRun opts = JUndefined \<longrightarrow>
        dry_run (body (implementRecommendation_request cid (Some opts))) = JBool False)
   \<and> (force opts = JUndefined \<longrightarrow>
        force_field (body (implementRecommendation_request cid (Some opts))) = JBool False)
   \<and> is_boolean (dry_run (body (implementRecommendation_request cid (Some opts)))) =
       (is_boolean (dryRun opts) \<or> \<not> js_truthy (dryRun opts))
   \<and> is_boolean (force_field (body (implementRecommendation_request cid (Some opts)))) =
       (is_boolean (force opts) \<or> \<not> js_truthy (force opts))
   \<and> (boolean_or_omitted (dryRun opts) \<longrightarrow>
        is_boolean (dry_run (body (implementRecommendation_request cid (Some opts)))))
   \<and> (boolean_or_omitted (force opts) \<longrightarrow>
        is_boolean (force_field (body (implementRecommendation_request cid (Some opts)))))
   \<and> body (card_request cid d) = \<lparr>dry_run = JBool d, force_field = JBool False\<rparr>"
proof -
  have fields: "dry_run (body (implementRecommendation_request cid (Some opts))) =
                  js_or (dryRun opts) (JBool False)"
    "force_field (body (implementRecommendation_request cid (Some opts))) =
       js_or (force opts) (JBool False)"
    by (simp_all add: implementRecommendation_request_def Let_def)
  have none: "body (implementRecommendation_request cid None) =
                \<lparr>dry_run = JBool False, force_field = JBool False\<rparr>"
    by (simp add: implementRecommendation_request_def default_options_def Let_def js_or_undefined)
  have path: "url (implementRecommendation_request cid options) = ''/implement/'' @ cid"
    by (simp add: implementRecommendation_request_def Let_def)
  have from_card: "body (card_request cid d) = \<lparr>dry_run = JBool d, force_field = JBool False\<rparr>"
    by (simp add: card_request_def implementRecommendation_request_def Let_def js_or_def)
  have unfolded: "\<And>v. js_or v (JBool False) = (if js_truthy v then v else JBool False)"
    by (simp add: js_or_def)
  have omitted: "\<And>v. boolean_or_omitted v \<Longrightarrow> is_boolean v \<or> \<not> js_truthy v"
    by (auto simp: boolean_or_omitted_def)
  from none path from_card omitted show ?thesis
    by (simp add: fields unfolded [symmetric] js_or_undefined is_boolean_js_or_false)
qed

theorem implementRecommendation_body_witness:
  "dryRun default_options = JUndefined \<and> force default_options = JUndefined
   \<and> boolean_or_omitted (dryRun default_options) \<and> boolean_or_omitted (force default_options)
   \<and> body (implementRecommendation_request ''c1'' (Some default_options))
       = \<lparr>dry_run = JBool False, force_field = JBool False\<rparr>
   \<and> boolean_or_omitted (dryRun \<lparr>dryRun = JBool True, force = JUndefined\<rparr>)
   \<and> boolean_or_omitted (force \<lparr>dryRun = JBool True, force = JUndefined\<rparr>)
   \<and> body (implementRecommendation_request ''c1'' (Some \<lparr>dryRun = JBool True, force = JUndefined\<rparr>))
       = \<lparr>dry_run = JBool True, force_field = JBool False\<rparr>
   \<and> is_boolean (dry_run (body (implementRecommendation_request ''c1''
         (Some \<lparr>dryRun = JBool True, force = JUndefined\<rparr>))))
   \<and> js_truthy (dryRun \<lparr>dryRun = JString ''yes'', force = JNumber 0\<rparr>)
   \<and> \<not> js_truthy (force \<lparr>dryRun = JString ''yes'', force = JNumber 0\<rparr>)
   \<and> body (implementRecommendation_request ''c1''
         (Some \<lparr>dryRun = JString ''yes'', force = JNumber 0\<rparr>))
       = \<lparr>dry_run = JString ''yes'', force_field = JBool False\<rparr>"
proof -
  have eq: "\<And>b b'. dry_run b = dry_run b' \<Longrightarrow> force_field b = force_field b' \<Longrightarrow>
                 b = (b' :: implement_body)"
    by simp
  note t1 = implementRecommendation_body [of "''c1''" None default_options True]
  note t2 = implementRecommendation_body
      [of "''c1''" None "\<lparr>dryRun = JBool True, force = JUndefined\<rparr>" True]
  note t3 = implementRecommendation_body
      [of "''c1''" None "\<lparr>dryRun = JString ''yes'', force = JNumber 0\<rparr>" True]
  have b1: "body (implementRecommendation_request ''c1'' (Some default_options))
       = \<lparr>dry_run = JBool False, force_field = JBool False\<rparr>"
    using t1 by (intro eq) (simp_all add: default_options_def)
  have b2: "body (implementRecommendation_request ''c1'' (Some \<lparr>dryRun = JBool True, force = JUndefined\<rparr>))
       = \<lparr>dry_run = JBool True, force_field = JBool False\<rparr>"
    using t2 by (intro eq) simp_all
  have b3: "body (implementRecommendation_request ''c1''
         (Some \<lparr>dryRun = JString ''yes'', force = JNumber 0\<rparr>))
       = \<lparr>dry_run = JString ''yes'', force_field = JBool False\<rparr>"
    using t3 by (intro eq) simp_all
  from b1 b2 b3 show ?thesis
    by (simp add: default_options_def boolean_or_omitted_def)
qed

text \<open>
  The claim as written fails: \<^verbatim>\<open>||\<close> does not coerce, so a truthy option that is not a
  boolean reaches the body unchanged.
\<close>

theorem implementRecommendation_body_counterexample:
  "\<not> is_boolean (dry_run (body (implementRecommendation_request ''c1''
        (Some \<lparr>dryRun = JString ''yes'', force = JUndefined\<rparr>))))"
  by (simp add: implementRecommendation_request_def Let_def js_or_def)

section \<open>Properties of the card\<close>

lemma js_or_truthy: "js_truthy b \<Longrightarrow> js_truthy (js_or a b)"
  by (simp add: js_or_def)

lemma js_truthy_not_empty_string: "js_truthy m \<Longrightarrow> m \<noteq> JString []"
  by auto

text \<open>
  While a request of the card is awaited both buttons are disabled, and they are enabled
  again when the call has ended, whatever the server answered.
\<close>

lemma buttons_disabled_while_awaiting:
  "buttons_disabled (awaiting st)
   \<and> \<not> buttons_disabled (fst (implementRecommendation srv cid st d))"
  by (simp add: buttons_disabled_def awaiting_def implementRecommendation_def Let_def
      split: sum.splits)

text \<open>
  Claim C8.  Whenever the request of an \<open>implementRecommendation\<close> call is rejected (a
  transport or a server error), the call still ends normally: the card holds a result
  object with \<open>success = false\<close> and a message that is the server's \<open>detail\<close> when that
  is truthy and \<^verbatim>\<open>'Implementation failed'\<close> otherwise, so never the empty string; the
  \<open>implementing\<close> flag is cleared and no completion event is emitted.
\<close>

theorem implementRecommendation_failure_result:
  "srv (card_request cid d) = Inl err \<Longrightarrow>
   (\<exists>m. implementRecommendation srv cid st d =
          (\<lparr>implementing = False,
            implementationResult =
              Some \<lparr>success = False, message = m, savings = None, affected_resources = None\<rparr>\<rparr>,
           None)
        \<and> m = js_or (error_detail err) (JString ''Implementation failed'')
        \<and> js_truthy m \<and> m \<noteq> JString [])"
  by (simp add: implementRecommendation_def awaiting_def Let_def js_or_truthy
      js_truthy_not_empty_string)

theorem implementRecommendation_failure_result_witness:
  "(\<lambda>req. Inl \<lparr>response = None\<rparr>) (card_request ''c1'' False) = Inl \<lparr>response = None\<rparr>
   \<and> implementRecommendation (\<lambda>req. Inl \<lparr>response = None\<rparr>) ''c1''
        \<lparr>implementing = False, implementationResult = None\<rparr> False =
      (\<lparr>implementing = False,
        implementationResult =
          Some \<lparr>success = False, message = JString ''Implementation failed'', savings = None,
                affected_resources = None\<rparr>\<rparr>,
       None)"
  using implementRecommendation_failure_result
    [of "\<lambda>req. Inl \<lparr>response = None\<rparr>" "''c1''" False "\<lparr>response = None\<rparr>"
        "\<lparr>implementing = False, implementationResult = None\<rparr>"]
  by (simp add: error_detail_def js_or_def)

section \<open>Properties of the health check\<close>

text \<open>
  Claim C7.  Whenever the health request fails (the boundary is unreachable or the
  server answers with an error), \<open>checkHealth\<close> sets \<open>awsConnection\<close> to false and the
  health status to \<^verbatim>\<open>'unhealthy'\<close>, which is displayed as Unhealthy and Disconnected;
  from an answer it reads exactly the fields \<open>status\<close>, \<open>aws_connection\<close> and
  \<open>timestamp\<close>.
\<close>

theorem checkHealth_failure_unhealthy:
  "checkHealth fmt now st (Inl err) =
     st\<lparr>healthStatus := ''unhealthy'', awsConnection := False,
        lastHealthCheck := fmt now, healthLoading := False\<rparr>
   \<and> awsConnection (checkHealth fmt now st (Inl err)) = False
   \<and> healthStatus (checkHealth fmt now st (Inl err)) = ''unhealthy''
   \<and> healthStatusText (checkHealth fmt now st (Inl err)) = ''Unhealthy''
   \<and> healthStatusClass (checkHealth fmt now st (Inl err)) = ''bg-red-500''
   \<and> awsConnectionText (checkHealth fmt now st (Inl err)) = ''Disconnected''
   \<and> checkHealth fmt now st (Inr health) =
       st\<lparr>healthStatus := health_status health, awsConnection := aws_connection health,
          lastHealthCheck := fmt (timestamp health), healthLoading := False\<rparr>"
  by (simp add: checkHealth_def Let_def healthStatusText_def healthStatusClass_def
      awsConnectionText_def)

section \<open>Properties of the recommendation list\<close>

lemma or_zero_value: "or_zero v = (case v of None \<Rightarrow> 0 | Some q \<Rightarrow> q)"
  by (simp add: or_zero_def split: option.splits)

text \<open>
  Claim C9.  The total savings is the sum, taken from the left with the code's addition
  and starting at 0, of \<open>estimated_savings\<close> over all the recommendations of the list
  in their order, a missing or null value counting 0: the empty list gives 0 and every
  further recommendation adds its value to the total of those before it.  The total does
  not depend on the status, category and implementation filters.
\<close>

theorem totalSavings_of_all_recommendations:
  "totalSavings add st =
     foldl (\<lambda>total rec. add total (case estimated_savings rec of None \<Rightarrow> 0 | Some q \<Rightarrow> q))
       0 (recommendations st)
   \<and> totalSavings add (st\<lparr>recommendations := []\<rparr>) = 0
   \<and> totalSavings add (st\<lparr>recommendations := recs @ [rec]\<rparr>) =
       add (totalSavings add (st\<lparr>recommendations := recs\<rparr>))
           (case estimated_savings rec of None \<Rightarrow> 0 | Some q \<Rightarrow> q)
   \<and> totalSavings add (st\<lparr>statusFilter := sf, categoryFilter := cf, implementationFilter := imf\<rparr>)
       = totalSavings add st"
  by (simp add: totalSavings_def or_zero_value)

lemma summary_after_event:
  "implementationSummary (handleImplementationCompleted st ev) =
     take 5 (summary_of ev # implementationSummary st)"
  by (simp add: handleImplementationCompleted_def Let_def split: option.splits)

lemma take_append_take: "take n (xs @ take n ys) = take n (xs @ ys)"
  by (simp add: min_def)

lemma summary_after_events:
  "implementationSummary (handle_all st (ev # evs)) =
     take 5 (rev (map summary_of (ev # evs)) @ implementationSummary st)"
proof (induction evs arbitrary: st ev)
  case Nil
  show ?case by (simp add: summary_after_event)
next
  case (Cons ev' evs)
  have "implementationSummary (handle_all st (ev # ev' # evs)) =
        implementationSummary (handle_all (handleImplementationCompleted st ev) (ev' # evs))"
    by simp
  also have "\<dots> = take 5 (rev (map summary_of (ev' # evs)) @
                    implementationSummary (handleImplementationCompleted st ev))"
    by (rule Cons.IH)
  also have "\<dots> = take 5 (rev (map summary_of (ev' # evs)) @ take 5 (summary_of ev # implementationSummary st))"
    by (simp only: summary_after_event)
  also have "\<dots> = take 5 (rev (map summary_of (ev' # evs)) @ (summary_of ev # implementationSummary st))"
    by (rule take_append_take)
  finally show ?case by simp
qed

text \<open>
  Claim C10.  After a completion event the summary list is the new entry followed by the
  first four of the entries before, so it has at most 5 entries, newest first; after any
  run of events it holds the five most recent entries.
\<close>

theorem implementationSummary_last_five:
  "implementationSummary (handleImplementationCompleted st ev) =
     summary_of ev # take 4 (implementationSummary st)
   \<and> length (implementationSummary (handleImplementationCompleted st ev)) \<le> 5
   \<and> implementationSummary (handle_all st (ev # evs)) =
       take 5 (rev (map summary_of (ev # evs)) @ implementationSummary st)"
  using summary_after_events [of st ev evs]
  by (simp add: summary_after_event)

lemma findIndex_Some:
  "findIndex p xs = Some i \<Longrightarrow> i < length xs \<and> p (xs ! i)"
proof (induction xs arbitrary: i)
  case Nil
  then show ?case by simp
next
  case (Cons x xs)
  then show ?case by (cases "p x") auto
qed

text \<open>
  The handler of a completion event leaves every \<open>estimated_savings\<close> as it was, so the
  total is as before; the status of the recommendation the event names becomes ok or
  error, whatever the mode of the run was (the event does not carry it).
\<close>

lemma handleImplementationCompleted_keeps_savings:
  "map estimated_savings (recommendations (handleImplementationCompleted st ev)) =
   map estimated_savings (recommendations st)"
  by (auto simp: handleImplementationCompleted_def Let_def map_update list_update_same_conv
      dest: findIndex_Some split: option.splits)

lemma handleImplementationCompleted_status:
  "findIndex (\<lambda>r. check_id r = ev_checkId ev) (recommendations st) = Some i \<Longrightarrow>
   status (recommendations (handleImplementationCompleted st ev) ! i) =
     (if ev_success ev then ''ok'' else ''error'')"
  by (auto simp: handleImplementationCompleted_def Let_def dest: findIndex_Some)

text \<open>
  Claim C1, on the front end.  A dry run that the server answers with a success is a
  completed implementation for the list: the click on Dry Run sends \<open>dry_run = true\<close>,
  the card emits the completion event without the mode, and the list's handler rewrites
  the recommendation's status from warning to ok (the count of warnings drops from 1 to
  0) and lists the run as an implementation that succeeded.
\<close>

theorem dry_run_rewrites_status:
  "status example_recommendation = ''warning''
   \<and> dry_run (body (card_request (check_id example_recommendation) True)) = JBool True
   \<and> map status (recommendations (fst (click example_server True example_recommendation example_list
          \<lparr>implementing = False, implementationResult = None\<rparr>))) = [''ok'']
   \<and> map summary_message (implementationSummary (fst (click example_server True example_recommendation
          example_list \<lparr>implementing = False, implementationResult = None\<rparr>))) =
       [''Implementation succeeded'']
   \<and> warningCount example_list = 1
   \<and> warningCount (fst (click example_server True example_recommendation example_list
          \<lparr>implementing = False, implementationResult = None\<rparr>)) = 0"
  by (simp add: click_def implementRecommendation_def awaiting_def card_request_def
      implementRecommendation_request_def js_or_def Let_def example_server_def
      example_recommendation_def example_list_def handleImplementationCompleted_def
      summary_of_def or_zero_def warningCount_def)


section \<open>Properties of the aggregation\<close>

lemma n_succeeded_le: "n_succeeded os \<le> length os"
  by (simp add: n_succeeded_def)

lemma n_succeeded_all:
  "(n_succeeded os = length os) = (\<forall>o'\<in>set os. succeeded (snd o'))"
proof
  assume all: "n_succeeded os = length os"
  show "\<forall>o'\<in>set os. succeeded (snd o')"
  proof
    fix x assume "x \<in> set os"
    show "succeeded (snd x)"
    proof (rule ccontr)
      assume "\<not> succeeded (snd x)"
      with \<open>x \<in> set os\<close> have "length (filter (\<lambda>o'. succeeded (snd o')) os) < length os"
        by (rule length_filter_less)
      with all show False by (simp add: n_succeeded_def)
    qed
  qed
next
  assume "\<forall>o'\<in>set os. succeeded (snd o')"
  then have "filter (\<lambda>o'. succeeded (snd o')) os = os" by simp
  then show "n_succeeded os = length os" by (simp add: n_succeeded_def)
qed

lemma n_succeeded_pos:
  "(0 < n_succeeded os) = (\<exists>o'\<in>set os. succeeded (snd o'))"
  by (induction os) (auto simp: n_succeeded_def)

lemma classify_terminal: "terminal (classify out)"
  by (simp add: classify_def terminal_def split: automation_outcome.splits)

lemma classify_not_InProgress: "classify out \<noteq> InProgress"
  by (simp add: classify_def split: automation_outcome.splits)

lemma classify_Succeeded:
  "(classify out = Succeeded) =
     (\<exists>os. out = Outcomes os \<and> os \<noteq> [] \<and> (\<forall>o'\<in>set os. succeeded (snd o')))"
  by (cases out) (auto simp: classify_def n_succeeded_all)

lemma classify_PartiallyFailed:
  "(classify out = PartiallyFailed) =
     (\<exists>os. out = Outcomes os \<and> (\<exists>o'\<in>set os. succeeded (snd o'))
                             \<and> (\<exists>o'\<in>set os. \<not> succeeded (snd o')))"
  by (cases out) (auto simp: classify_def n_succeeded_all n_succeeded_pos)

lemma n_succeeded_zero:
  "(n_succeeded os = 0) = (\<forall>o'\<in>set os. \<not> succeeded (snd o'))"
  using n_succeeded_pos [of os] by auto

lemma classify_Failed_count:
  "(classify (Outcomes os) = Failed) = (n_succeeded os = 0)"
proof (cases "os = []")
  case True
  then show ?thesis by (simp add: classify_def n_succeeded_def)
next
  case False
  then have "0 < length os" by simp
  then show ?thesis by (auto simp: classify_def)
qed

lemma classify_Failed:
  "(classify out = Failed) =
     ((\<exists>m. out = Unrecoverable m)
      \<or> (\<exists>os. out = Outcomes os \<and> (\<forall>o'\<in>set os. \<not> succeeded (snd o'))))"
proof (cases out)
  case (Unrecoverable m)
  then show ?thesis by (simp add: classify_def)
next
  case (Outcomes os)
  then show ?thesis by (simp add: classify_Failed_count n_succeeded_zero)
qed

lemma finish_attempt_state:
  "state (get_status (snd (finish_attempt c rid d out)) rid) = classify out"
  by (simp add: finish_attempt_def Let_def get_status_def)

text \<open>
  Claim C4.  A run is classified Succeeded exactly when every outcome succeeded and at
  least one resource was processed; a run over zero resources is Failed, with the message
  that says so; PartiallyFailed exactly when at least one resource succeeded and at least
  one failed; Failed exactly when all resources failed or the run was aborted before any
  resource was processed.  The classification is the state the attempt ends in.
\<close>

theorem classification_of_a_run:
  "(classify out = Succeeded) =
     (\<exists>os. out = Outcomes os \<and> os \<noteq> [] \<and> (\<forall>o'\<in>set os. succeeded (snd o')))
   \<and> classify (Outcomes []) = Failed
   \<and> describe (Outcomes []) = NoResources
   \<and> (classify out = PartiallyFailed) =
       (\<exists>os. out = Outcomes os \<and> (\<exists>o'\<in>set os. succeeded (snd o'))
                               \<and> (\<exists>o'\<in>set os. \<not> succeeded (snd o')))
   \<and> (classify out = Failed) =
       ((\<exists>m. out = Unrecoverable m)
        \<or> (\<exists>os. out = Outcomes os \<and> (\<forall>o'\<in>set os. \<not> succeeded (snd o'))))
   \<and> classify out \<in> {Succeeded, PartiallyFailed, Failed}
   \<and> state (get_status (snd (finish_attempt c rid d out)) rid) = classify out
   \<and> res_message (fst (finish_attempt c rid d out)) = describe out"
proof -
  have empty: "classify (Outcomes []) = Failed" "describe (Outcomes []) = NoResources"
    by (simp_all add: classify_def describe_def)
  have range: "classify out \<in> {Succeeded, PartiallyFailed, Failed}"
    using classify_terminal [of out] by (auto simp: terminal_def)
  have msg: "res_message (fst (finish_attempt c rid d out)) = describe out"
    by (simp add: finish_attempt_def Let_def)
  from empty range msg show ?thesis
    by (simp only: classify_Succeeded [of out] classify_PartiallyFailed [of out]
        classify_Failed [of out] finish_attempt_state [of c rid d out] simp_thms)
qed

theorem classification_of_a_run_witness:
  "classify (Outcomes [(''res-a'', \<lparr>succeeded = True, errorDetail = []\<rparr>),
                       (''res-b'', \<lparr>succeeded = False, errorDetail = ''timed out''\<rparr>)]) = PartiallyFailed
   \<and> classify (Outcomes [(''res-a'', \<lparr>succeeded = True, errorDetail = []\<rparr>)]) = Succeeded
   \<and> classify (Outcomes [(''res-b'', \<lparr>succeeded = False, errorDetail = ''timed out''\<rparr>)]) = Failed
   \<and> classify (Outcomes []) = Failed
   \<and> classify (Unrecoverable ''inventory unavailable'') = Failed"
  using classification_of_a_run
    [of "Outcomes [(''res-a'', \<lparr>succeeded = True, errorDetail = []\<rparr>),
                   (''res-b'', \<lparr>succeeded = False, errorDetail = ''timed out''\<rparr>)]"]
    classification_of_a_run [of "Outcomes [(''res-a'', \<lparr>succeeded = True, errorDetail = []\<rparr>)]"]
    classification_of_a_run
    [of "Outcomes [(''res-b'', \<lparr>succeeded = False, errorDetail = ''timed out''\<rparr>)]"]
    classification_of_a_run [of "Unrecoverable ''inventory unavailable''"]
  by simp


section \<open>Properties of one request\<close>

lemma get_status_record_status:
  "get_status (record_status c rid s) r = (if r = rid then s else get_status c r)"
  by (simp add: get_status_def record_status_def)

lemma recommendationStore_record_status:
  "recommendationStore (record_status c rid s) = recommendationStore c"
  by (simp add: record_status_def)

lemma statusTable_record_status:
  "statusTable (record_status c rid s) r = (if r = rid then Some s else statusTable c r)"
  by (simp add: record_status_def)

lemma begin_attempt_in_progress:
  "state (get_status c rid) = InProgress \<Longrightarrow>
   begin_attempt reg c rid = (Inl AlreadyInProgressError, c)"
  by (simp add: begin_attempt_def single_flight_guard_def)

lemma begin_attempt_unregistered:
  "state (get_status c rid) \<noteq> InProgress \<Longrightarrow>
   reg (rec_kind (recommendationStore c rid)) = None \<Longrightarrow>
   begin_attempt reg c rid = (Inl NotAutomatableError, c)"
  by (simp add: begin_attempt_def single_flight_guard_def record_status_def)

lemma begin_attempt_registered:
  "state (get_status c rid) \<noteq> InProgress \<Longrightarrow>
   reg (rec_kind (recommendationStore c rid)) = Some a \<Longrightarrow>
   begin_attempt reg c rid =
     (Inr a, record_status c rid ((get_status c rid)\<lparr>state := InProgress\<rparr>))"
  by (simp add: begin_attempt_def single_flight_guard_def record_status_def)

lemma get_status_finish_attempt:
  "get_status (snd (finish_attempt c rid d out)) r =
     (if r = rid then \<lparr>state = classify out, lastResult = Some (fst (finish_attempt c rid d out))\<rparr>
      else get_status c r)"
  by (simp add: finish_attempt_def Let_def get_status_def)

lemma statusTable_finish_attempt:
  "(statusTable (snd (finish_attempt c rid d out)) r = None) = (r \<noteq> rid \<and> statusTable c r = None)"
  by (simp add: finish_attempt_def Let_def)

lemma rec_kind_finish_attempt:
  "rec_kind (recommendationStore (snd (finish_attempt c rid d out)) r) =
   rec_kind (recommendationStore c r)"
  by (simp add: finish_attempt_def Let_def advance_status_def)

lemma savings_of_dry_run: "savings_of True estimate out = 0"
  by (simp add: savings_of_def)

lemma advance_status_dry_run: "advance_status True out r = r"
  by (simp add: advance_status_def)

lemma finish_attempt_dry_run:
  "savingsRealized (fst (finish_attempt c rid True out)) = 0
   \<and> recommendationStore (snd (finish_attempt c rid True out)) = recommendationStore c"
  by (simp add: finish_attempt_def Let_def savings_of_dry_run advance_status_dry_run)

lemma implement_cases:
  "implement reg c rid d =
     (if state (get_status c rid) = InProgress then (Inl AlreadyInProgressError, c)
      else (case reg (rec_kind (recommendationStore c rid)) of
              None \<Rightarrow> (Inl NotAutomatableError, c)
            | Some a \<Rightarrow>
                (let c1 = record_status c rid ((get_status c rid)\<lparr>state := InProgress\<rparr>);
                     fin = finish_attempt c1 rid d (a (affectedResources (recommendationStore c rid)) d)
                 in (Inr (fst fin), snd fin))))"
proof (cases "state (get_status c rid) = InProgress")
  case True
  then show ?thesis by (simp add: implement_def begin_attempt_in_progress)
next
  case False
  show ?thesis
  proof (cases "reg (rec_kind (recommendationStore c rid))")
    case None
    with False show ?thesis by (simp add: implement_def begin_attempt_unregistered)
  next
    case (Some a)
    with False show ?thesis
      by (simp add: implement_def begin_attempt_registered recommendationStore_record_status
          Let_def split: prod.splits)
  qed
qed

text \<open>
  The engine's side of a dry run: nothing is saved, the stored recommendations are as
  before, and the id is not left InProgress.
\<close>

lemma implement_dry_run:
  "implement reg c rid True = (r, c') \<Longrightarrow>
   recommendationStore c' = recommendationStore c
   \<and> (state (get_status c rid) \<noteq> InProgress \<longrightarrow> state (get_status c' rid) \<noteq> InProgress)
   \<and> (\<forall>res. r = Inr res \<longrightarrow> savingsRealized res = 0 \<and> terminal (state (get_status c' rid)))"
  by (auto simp: implement_cases Let_def finish_attempt_dry_run get_status_finish_attempt
      recommendationStore_record_status classify_terminal classify_not_InProgress
      split: if_splits option.splits)

lemma savings_of_partial:
  "classify (Outcomes os) = PartiallyFailed \<Longrightarrow>
   savings_of False estimate (Outcomes os) = estimate * (of_nat (n_succeeded os) / of_nat (length os))"
  by (simp add: savings_of_def outcomes_of_def)

text \<open>
  Claim C2.  A real run that is classified PartiallyFailed realizes the estimated savings
  times the number of resources that succeeded over the number of resources the
  automation reported on, which is the number of affected resources when the automation
  reported one outcome per affected resource, as it must.
\<close>

theorem partial_failure_savings:
  assumes "state (get_status c rid) \<noteq> InProgress"
    and "reg (rec_kind (recommendationStore c rid)) = Some a"
    and "a (affectedResources (recommendationStore c rid)) False = Outcomes os"
    and "classify (Outcomes os) = PartiallyFailed"
  shows "\<exists>res c'. implement reg c rid False = (Inr res, c')
           \<and> state (get_status c' rid) = PartiallyFailed
           \<and> perResourceOutcomes res = os
           \<and> savingsRealized res =
               estimatedSavingsPerMonth (recommendationStore c rid) *
                 (of_nat (n_succeeded os) / of_nat (length os))
           \<and> (map fst os = affectedResources (recommendationStore c rid) \<longrightarrow>
                savingsRealized res =
                  estimatedSavingsPerMonth (recommendationStore c rid) *
                    (of_nat (n_succeeded os) /
                     of_nat (length (affectedResources (recommendationStore c rid)))))"
proof -
  have len: "map fst os = affectedResources (recommendationStore c rid) \<Longrightarrow>
             length (affectedResources (recommendationStore c rid)) = length os"
    by (drule arg_cong [where f = length]) simp
  let ?c1 = "record_status c rid ((get_status c rid)\<lparr>state := InProgress\<rparr>)"
  let ?fin = "finish_attempt ?c1 rid False (Outcomes os)"
  have run: "implement reg c rid False = (Inr (fst ?fin), snd ?fin)"
    using assms(1,2,3) by (simp add: implement_cases Let_def)
  have st: "state (get_status (snd ?fin) rid) = PartiallyFailed"
    using assms(4) by (simp add: get_status_finish_attempt)
  have os: "perResourceOutcomes (fst ?fin) = os"
    by (simp add: finish_attempt_def Let_def outcomes_of_def)
  have sv: "savingsRealized (fst ?fin) =
              estimatedSavingsPerMonth (recommendationStore c rid) *
                (of_nat (n_succeeded os) / of_nat (length os))"
    using assms(4)
    by (simp add: finish_attempt_def Let_def savings_of_partial recommendationStore_record_status)
  from run st os sv len show ?thesis by simp
qed

theorem partial_failure_savings_witness:
  "state (get_status (coord (initial_engine example_store)) ''r1'') \<noteq> InProgress
   \<and> example_registry (rec_kind (recommendationStore (coord (initial_engine example_store)) ''r1''))
       = Some (example_automation [''res-d''])
   \<and> map fst (outcomes_of (example_automation [''res-d'']
         (affectedResources (recommendationStore (coord (initial_engine example_store)) ''r1'')) False))
       = affectedResources (recommendationStore (coord (initial_engine example_store)) ''r1'')
   \<and> classify (example_automation [''res-d'']
         (affectedResources (recommendationStore (coord (initial_engine example_store)) ''r1'')) False)
       = PartiallyFailed
   \<and> length (affectedResources (recommendationStore (coord (initial_engine example_store)) ''r1'')) = 4
   \<and> estimatedSavingsPerMonth (recommendationStore (coord (initial_engine example_store)) ''r1'') = 100
   \<and> (\<exists>res c'. implement example_registry (coord (initial_engine example_store)) ''r1'' False
                  = (Inr res, c')
              \<and> state (get_status c' ''r1'') = PartiallyFailed
              \<and> n_succeeded (perResourceOutcomes res) = 3
              \<and> savingsRealized res = 75)"
  using partial_failure_savings
    [of "coord (initial_engine example_store)" "''r1''" example_registry
        "example_automation [''res-d'']"
        "[(''res-a'', \<lparr>succeeded = True, errorDetail = []\<rparr>),
          (''res-b'', \<lparr>succeeded = True, errorDetail = []\<rparr>),
          (''res-c'', \<lparr>succeeded = True, errorDetail = []\<rparr>),
          (''res-d'', \<lparr>succeeded = False, errorDetail = ''timed out''\<rparr>)]"]
  by (simp add: initial_engine_def example_store_def example_registry_def example_automation_def
      get_status_def classify_def n_succeeded_def implement_cases Let_def finish_attempt_def
      outcomes_of_def)


section \<open>Properties of the engine under interleaved requests\<close>

lemma take_attempt_None:
  "(take_attempt rid xs = None) = (length (filter (\<lambda>x. fst x = rid) xs) = 0)"
  by (induction xs) (auto split: option.splits)

lemma take_attempt_Some:
  "take_attempt rid xs = Some (y, rest) \<Longrightarrow>
   length (filter (\<lambda>x. fst x = r) xs) =
     length (filter (\<lambda>x. fst x = r) rest) + (if r = rid then 1 else 0)"
  by (induction xs arbitrary: y rest) (auto split: if_splits option.splits)

lemma engine_step_in_progress:
  "state (get_status (coord e) rid) = InProgress \<Longrightarrow>
   engine_step reg e (Arrive rid d) = ([Rejected AlreadyInProgressError], e)"
  by (simp add: engine_step_def begin_attempt_in_progress)

lemma engine_step_unregistered:
  "state (get_status (coord e) rid) \<noteq> InProgress \<Longrightarrow>
   reg (rec_kind (recommendationStore (coord e) rid)) = None \<Longrightarrow>
   engine_step reg e (Arrive rid d) = ([Rejected NotAutomatableError], e)"
  by (simp add: engine_step_def begin_attempt_unregistered)

lemma engine_step_registered:
  "state (get_status (coord e) rid) \<noteq> InProgress \<Longrightarrow>
   reg (rec_kind (recommendationStore (coord e) rid)) = Some a \<Longrightarrow>
   engine_step reg e (Arrive rid d) =
     ([], e\<lparr>coord := record_status (coord e) rid ((get_status (coord e) rid)\<lparr>state := InProgress\<rparr>),
            inFlight := inFlight e @
              [(rid, d, a (affectedResources (recommendationStore (coord e) rid)) d)]\<rparr>)"
  by (simp add: engine_step_def begin_attempt_registered recommendationStore_record_status)

lemma engine_step_finish_none:
  "take_attempt rid (inFlight e) = None \<Longrightarrow> engine_step reg e (Finish rid) = ([], e)"
  by (simp add: engine_step_def)

lemma engine_step_finish_some:
  "take_attempt rid (inFlight e) = Some ((d, out), rest) \<Longrightarrow>
   engine_step reg e (Finish rid) =
     ([Completed (fst (finish_attempt (coord e) rid d out))],
      e\<lparr>coord := snd (finish_attempt (coord e) rid d out), inFlight := rest\<rparr>)"
  by (simp add: engine_step_def split: prod.splits)

lemma engine_inv_initial: "engine_inv reg store (initial_engine store)"
  by (simp add: engine_inv_def initial_engine_def running_def get_status_def)

lemma engine_inv_arrive:
  assumes inv: "engine_inv reg store e"
  shows "engine_inv reg store (snd (engine_step reg e (Arrive rid d)))"
proof (cases "state (get_status (coord e) rid) = InProgress")
  case True
  with inv show ?thesis by (simp add: engine_step_in_progress)
next
  case False
  show ?thesis
  proof (cases "reg (rec_kind (recommendationStore (coord e) rid))")
    case None
    with False inv show ?thesis by (simp add: engine_step_unregistered)
  next
    case (Some a)
    from inv have kind: "rec_kind (recommendationStore (coord e) rid) = rec_kind (store rid)"
      by (simp add: engine_inv_def)
    with Some have registered: "reg (rec_kind (store rid)) \<noteq> None" by simp
    from inv False have idle: "running e rid = 0" by (simp add: engine_inv_def)
    define e' where "e' = e\<lparr>coord := record_status (coord e) rid ((get_status (coord e) rid)\<lparr>state := InProgress\<rparr>),
            inFlight := inFlight e @
              [(rid, d, a (affectedResources (recommendationStore (coord e) rid)) d)]\<rparr>"
    have step: "engine_step reg e (Arrive rid d) = ([], e')"
      using False Some by (simp add: engine_step_registered e'_def)
    have "engine_inv reg store e'"
      unfolding engine_inv_def
    proof (intro allI)
      fix r
      from inv have r: "running e r = (if state (get_status (coord e) r) = InProgress then 1 else 0)"
        "rec_kind (recommendationStore (coord e) r) = rec_kind (store r)"
        "reg (rec_kind (store r)) = None \<longrightarrow> statusTable (coord e) r = None"
        by (simp_all add: engine_inv_def)
      show "running e' r = (if state (get_status (coord e') r) = InProgress then 1 else 0)
          \<and> rec_kind (recommendationStore (coord e') r) = rec_kind (store r)
          \<and> (reg (rec_kind (store r)) = None \<longrightarrow> statusTable (coord e') r = None)"
        using r idle registered
        by (auto simp: e'_def running_def get_status_record_status recommendationStore_record_status
            statusTable_record_status)
    qed
    with step show ?thesis by simp
  qed
qed

lemma engine_inv_finish:
  assumes inv: "engine_inv reg store e"
  shows "engine_inv reg store (snd (engine_step reg e (Finish rid)))"
proof (cases "take_attempt rid (inFlight e)")
  case None
  with inv show ?thesis by (simp add: engine_step_finish_none)
next
  case (Some found)
  obtain d out rest where found: "found = ((d, out), rest)"
    by (cases found) auto
  define e' where "e' = e\<lparr>coord := snd (finish_attempt (coord e) rid d out), inFlight := rest\<rparr>"
  have step: "snd (engine_step reg e (Finish rid)) = e'"
    using Some found by (simp add: engine_step_finish_some e'_def)
  have count: "\<And>r. running e r = running e' r + (if r = rid then 1 else 0)"
    using take_attempt_Some [of rid "inFlight e" "(d, out)" rest] Some found
    by (simp add: running_def e'_def)
  from inv have before: "running e rid = (if state (get_status (coord e) rid) = InProgress then 1 else 0)"
    by (simp add: engine_inv_def)
  with count [of rid] have was: "state (get_status (coord e) rid) = InProgress" "running e' rid = 0"
    by (auto split: if_splits)
  from was(1) have "statusTable (coord e) rid \<noteq> None"
    by (auto simp: get_status_def split: option.splits)
  with inv have registered: "reg (rec_kind (store rid)) \<noteq> None"
    by (auto simp: engine_inv_def)
  have "engine_inv reg store e'"
    unfolding engine_inv_def
  proof (intro allI)
    fix r
    from inv have r: "running e r = (if state (get_status (coord e) r) = InProgress then 1 else 0)"
      "rec_kind (recommendationStore (coord e) r) = rec_kind (store r)"
      "reg (rec_kind (store r)) = None \<longrightarrow> statusTable (coord e) r = None"
      by (simp_all add: engine_inv_def)
    have coord': "coord e' = snd (finish_attempt (coord e) rid d out)"
      by (simp add: e'_def)
    show "running e' r = (if state (get_status (coord e') r) = InProgress then 1 else 0)
        \<and> rec_kind (recommendationStore (coord e') r) = rec_kind (store r)
        \<and> (reg (rec_kind (store r)) = None \<longrightarrow> statusTable (coord e') r = None)"
      using r count [of r] was registered
      by (auto simp: coord' get_status_finish_attempt rec_kind_finish_attempt
          statusTable_finish_attempt classify_not_InProgress)
  qed
  with step show ?thesis by simp
qed

lemma engine_inv_step:
  "engine_inv reg store e \<Longrightarrow> engine_inv reg store (snd (engine_step reg e ev))"
  by (cases ev) (simp_all add: engine_inv_arrive engine_inv_finish)

lemma engine_run_Cons:
  "engine_run reg e (ev # evs) =
     (fst (engine_step reg e ev) @ fst (engine_run reg (snd (engine_step reg e ev)) evs),
      snd (engine_run reg (snd (engine_step reg e ev)) evs))"
  by (simp split: prod.splits)

lemma engine_inv_run:
  "engine_inv reg store e \<Longrightarrow> engine_inv reg store (snd (engine_run reg e evs))"
proof (induction evs arbitrary: e)
  case Nil
  then show ?case by simp
next
  case (Cons ev evs)
  from Cons.prems have "engine_inv reg store (snd (engine_step reg e ev))"
    by (rule engine_inv_step)
  then have "engine_inv reg store (snd (engine_run reg (snd (engine_step reg e ev)) evs))"
    by (rule Cons.IH)
  then show ?case by (simp only: engine_run_Cons snd_conv)
qed

lemma engine_inv_reachable:
  "engine_inv reg store (snd (engine_run reg (initial_engine store) evs))"
  by (rule engine_inv_run [OF engine_inv_initial])

lemma take_attempt_last:
  "length (filter (\<lambda>x. fst x = rid) xs) = 0 \<Longrightarrow> take_attempt rid (xs @ [(rid, y)]) = Some (y, xs)"
  by (induction xs) (auto split: if_splits)

lemma two_overlapping_requests:
  assumes idle: "state (get_status (coord e) rid) \<noteq> InProgress"
    and reg: "reg (rec_kind (recommendationStore (coord e) rid)) = Some a"
    and none: "running e rid = 0"
  shows "\<exists>res e'. engine_run reg e [Arrive rid d1, Arrive rid d2, Finish rid] =
                    ([Rejected AlreadyInProgressError, Completed res], e')
                \<and> terminal (state (get_status (coord e') rid)) \<and> running e' rid = 0"
proof -
  define out where "out = a (affectedResources (recommendationStore (coord e) rid)) d1"
  define e1 where "e1 = e\<lparr>coord := record_status (coord e) rid ((get_status (coord e) rid)\<lparr>state := InProgress\<rparr>),
                          inFlight := inFlight e @ [(rid, d1, out)]\<rparr>"
  define e2 where "e2 = e1\<lparr>coord := snd (finish_attempt (coord e1) rid d1 out), inFlight := inFlight e\<rparr>"
  have s1: "engine_step reg e (Arrive rid d1) = ([], e1)"
    using idle reg by (simp add: engine_step_registered e1_def out_def)
  have busy: "state (get_status (coord e1) rid) = InProgress"
    by (simp add: e1_def get_status_record_status)
  then have s2: "engine_step reg e1 (Arrive rid d2) = ([Rejected AlreadyInProgressError], e1)"
    by (rule engine_step_in_progress)
  have "take_attempt rid (inFlight e1) = Some ((d1, out), inFlight e)"
    using none by (simp add: e1_def running_def take_attempt_last)
  then have s3: "engine_step reg e1 (Finish rid) =
                   ([Completed (fst (finish_attempt (coord e1) rid d1 out))], e2)"
    by (simp add: engine_step_finish_some e2_def)
  have run: "engine_run reg e [Arrive rid d1, Arrive rid d2, Finish rid] =
               ([Rejected AlreadyInProgressError, Completed (fst (finish_attempt (coord e1) rid d1 out))], e2)"
    by (simp add: s1 s2 s3)
  have fin: "terminal (state (get_status (coord e2) rid))"
    by (simp add: e2_def get_status_finish_attempt classify_terminal)
  have cnt: "running e2 rid = 0"
    using none by (simp add: e2_def running_def)
  from run fin cnt show ?thesis by blast
qed

lemma example_initial_idle:
  "state (get_status (coord (initial_engine example_store)) rid) = Idle"
  by (simp add: initial_engine_def get_status_def)

lemma initial_engine_store:
  "recommendationStore (coord (initial_engine store)) = store"
  by (simp add: initial_engine_def)

lemma example_after_arrival:
  "state (get_status (coord (snd (engine_run example_registry (initial_engine example_store)
       [Arrive ''r1'' False]))) ''r1'') = InProgress"
  by (simp add: engine_step_def begin_attempt_def single_flight_guard_def get_status_def
      record_status_def initial_engine_def example_store_def example_registry_def)

text \<open>
  Claim C3.  In every state the engine reaches, an id has at most one attempt in flight,
  and it has one exactly when its status is InProgress; a request that arrives for an id
  that is InProgress is rejected with AlreadyInProgressError and changes nothing, so no
  execution starts; and of two requests for one id of which the second arrives before the
  first has finished, one is rejected with AlreadyInProgressError and one ends with a
  terminal result.
\<close>

theorem single_flight_per_recommendation:
  assumes "e = snd (engine_run reg (initial_engine store) evs)"
  shows "running e rid \<le> 1
     \<and> (state (get_status (coord e) rid) = InProgress) = (running e rid = 1)
     \<and> (state (get_status (coord e) rid) = InProgress \<longrightarrow>
          engine_step reg e (Arrive rid d) = ([Rejected AlreadyInProgressError], e))
     \<and> (state (get_status (coord e) rid) \<noteq> InProgress \<and> reg (rec_kind (store rid)) \<noteq> None \<longrightarrow>
          (\<exists>res e'. engine_run reg e [Arrive rid d1, Arrive rid d2, Finish rid] =
                      ([Rejected AlreadyInProgressError, Completed res], e')
                  \<and> terminal (state (get_status (coord e') rid)) \<and> running e' rid = 0))"
proof -
  have inv: "engine_inv reg store e"
    unfolding assms by (rule engine_inv_reachable)
  then have cnt: "running e rid = (if state (get_status (coord e) rid) = InProgress then 1 else 0)"
    and kind: "rec_kind (recommendationStore (coord e) rid) = rec_kind (store rid)"
    by (simp_all add: engine_inv_def)
  have two: "\<exists>res e'. engine_run reg e [Arrive rid d1, Arrive rid d2, Finish rid] =
                      ([Rejected AlreadyInProgressError, Completed res], e')
                  \<and> terminal (state (get_status (coord e') rid)) \<and> running e' rid = 0"
    if idle: "state (get_status (coord e) rid) \<noteq> InProgress" and r: "reg (rec_kind (store rid)) \<noteq> None"
  proof -
    from r kind obtain a where "reg (rec_kind (recommendationStore (coord e) rid)) = Some a"
      by auto
    moreover from cnt idle have "running e rid = 0" by simp
    ultimately show ?thesis using idle by (intro two_overlapping_requests)
  qed
  from cnt two show ?thesis
    by (simp add: engine_step_in_progress)
qed

theorem single_flight_per_recommendation_witness:
  "state (get_status (coord (initial_engine example_store)) ''r1'') \<noteq> InProgress
   \<and> example_registry (rec_kind (example_store ''r1'')) \<noteq> None
   \<and> (\<exists>res e'. engine_run example_registry (initial_engine example_store)
                   [Arrive ''r1'' False, Arrive ''r1'' True, Finish ''r1''] =
                  ([Rejected AlreadyInProgressError, Completed res], e')
              \<and> terminal (state (get_status (coord e') ''r1'')) \<and> running e' ''r1'' = 0)
   \<and> state (get_status (coord (snd (engine_run example_registry (initial_engine example_store)
          [Arrive ''r1'' False]))) ''r1'') = InProgress
   \<and> running (snd (engine_run example_registry (initial_engine example_store)
          [Arrive ''r1'' False])) ''r1'' = 1
   \<and> engine_step example_registry
        (snd (engine_run example_registry (initial_engine example_store) [Arrive ''r1'' False]))
        (Arrive ''r1'' True) =
       ([Rejected AlreadyInProgressError],
        snd (engine_run example_registry (initial_engine example_store) [Arrive ''r1'' False]))"
  using single_flight_per_recommendation
      [of "initial_engine example_store" example_registry example_store "[]" "''r1''"
          True False True]
    single_flight_per_recommendation
      [OF refl, of example_registry example_store "[Arrive ''r1'' False]" "''r1''" True False True]
    example_after_arrival
  by (simp add: example_initial_idle example_store_def example_registry_def)

text \<open>
  Claim C5.  In every state the engine reaches, a request for a recommendation whose kind
  has no registered automation fails with NotAutomatableError and changes nothing: no
  attempt is in flight and the status stays Idle; and from any state in which the id is
  not InProgress such a request leaves the whole coordinator, its status included, as it
  was.
\<close>

theorem unregistered_kind_not_automatable:
  assumes "e = snd (engine_run reg (initial_engine store) evs)"
    and "reg (rec_kind (store rid)) = None"
  shows "engine_step reg e (Arrive rid d) = ([Rejected NotAutomatableError], e)
     \<and> implement reg (coord e) rid d = (Inl NotAutomatableError, coord e)
     \<and> state (get_status (coord e) rid) = Idle
     \<and> running e rid = 0
     \<and> \<not> canAutoImplement reg (recommendationStore (coord e) rid)
     \<and> (state (get_status c rid) \<noteq> InProgress \<and> reg (rec_kind (recommendationStore c rid)) = None \<longrightarrow>
          implement reg c rid d = (Inl NotAutomatableError, c)
          \<and> engine_step reg \<lparr>coord = c, inFlight = fl\<rparr> (Arrive rid d) =
              ([Rejected NotAutomatableError], \<lparr>coord = c, inFlight = fl\<rparr>))"
proof -
  have inv: "engine_inv reg store e"
    unfolding assms(1) by (rule engine_inv_reachable)
  then have cnt: "running e rid = (if state (get_status (coord e) rid) = InProgress then 1 else 0)"
    and kind: "rec_kind (recommendationStore (coord e) rid) = rec_kind (store rid)"
    and never: "statusTable (coord e) rid = None"
    using assms(2) by (simp_all add: engine_inv_def)
  from never have idle: "state (get_status (coord e) rid) = Idle"
    by (simp add: get_status_def)
  from kind assms(2) have unreg: "reg (rec_kind (recommendationStore (coord e) rid)) = None"
    by simp
  from idle unreg have step: "engine_step reg e (Arrive rid d) = ([Rejected NotAutomatableError], e)"
    by (simp add: engine_step_unregistered)
  from idle unreg have whole: "implement reg (coord e) rid d = (Inl NotAutomatableError, coord e)"
    by (simp add: implement_cases)
  from cnt idle have none: "running e rid = 0" by simp
  from step whole idle none unreg show ?thesis
    by (simp add: canAutoImplement_def implement_cases engine_step_unregistered)
qed

theorem unregistered_kind_not_automatable_witness:
  "example_registry (rec_kind (example_store ''r2'')) = None
   \<and> engine_step example_registry
        (snd (engine_run example_registry (initial_engine example_store)
                [Arrive ''r1'' False, Arrive ''r2'' True]))
        (Arrive ''r2'' False) =
       ([Rejected NotAutomatableError],
        snd (engine_run example_registry (initial_engine example_store)
               [Arrive ''r1'' False, Arrive ''r2'' True]))
   \<and> state (get_status (coord (snd (engine_run example_registry (initial_engine example_store)
          [Arrive ''r1'' False, Arrive ''r2'' True]))) ''r2'') = Idle
   \<and> state (get_status (coord (initial_engine example_store)) ''r2'') \<noteq> InProgress
   \<and> example_registry (rec_kind (recommendationStore (coord (initial_engine example_store)) ''r2''))
       = None
   \<and> implement example_registry (coord (initial_engine example_store)) ''r2'' False =
       (Inl NotAutomatableError, coord (initial_engine example_store))"
  using unregistered_kind_not_automatable
      [OF refl, of example_registry example_store "''r2''"
          "[Arrive ''r1'' False, Arrive ''r2'' True]" False
          "coord (initial_engine example_store)" "[]"]
  by (simp add: example_initial_idle initial_engine_store example_store_def example_registry_def)

end
